theory Spec2Isabelle
  imports Main
begin

section \<open>The header \<^verbatim>\<open>examples/CLKernels/SmartCL.h\<close>\<close>

text \<open>
  The repository fragment is one C/C++ header of preprocessor directives. It is kept
  here as it is written, line by line; the last line is not terminated by a newline,
  so the file holds fourteen newline characters and fifteen lines.
\<close>

definition SmartCL_h_text :: "string list" where
  \<open>SmartCL_h_text =
    [''#pragma once'',
     '''',
     ''#ifdef _WINDOWS'',
     '''',
     ''#define WIN32_LEAN_AND_MEAN'',
     ''#include <windows.h>'',
     ''#include <stdio.h>'',
     '''',
     ''#define kernel extern "C" __declspec(dllexport)'',
     ''#define global'',
     ''#define local'',
     '''',
     ''#pragma warning (disable : 4326) // For void main'',
     '''',
     ''#endif // _WINDOWS'']\<close>

text \<open>The name under which a translation unit includes the file.\<close>

definition SmartCL_h_name :: string where
  "SmartCL_h_name = ''SmartCL.h''"


section \<open>Lines of a source file\<close>

text \<open>
  Preprocessing tokens: identifiers, preprocessing numbers, string literals (kept
  without their quotes) and single punctuation characters.
\<close>

datatype token = Ident string | Number string | StrLit string | Punct char

datatype header_name = Angle string | Quoted string

text \<open>
  The directives the model understands, \<open>Blank\<close> for a line without tokens (empty,
  white space or comment only), \<open>Text\<close> for a line of program text, and
  \<open>Unsupported\<close> for everything else (\<^verbatim>\<open>#if\<close>, \<^verbatim>\<open>#elif\<close>, function-like macros,
  block comments, character literals, line continuations): a file with such a line is
  rejected rather than misread.
\<close>

datatype pp_line =
    Blank
  | PragmaOnce
  | Pragma "token list"
  | Ifdef string
  | Ifndef string
  | Else
  | Endif
  | Define string "token list"
  | Undef string
  | Include header_name
  | ErrorLine "token list"
  | Text "token list"
  | Unsupported

subsection \<open>Scanning a line into tokens\<close>

definition is_space :: "char \<Rightarrow> bool" where
  "is_space c = (c = CHR '' '' \<or> c = CHR 0x09)"

definition is_digit :: "char \<Rightarrow> bool" where
  "is_digit c = (c \<in> set ''0123456789'')"

definition is_ident_start :: "char \<Rightarrow> bool" where
  "is_ident_start c =
     (c \<in> set ''abcdefghijklmnopqrstuvwxyzABCDEFGHIJKLMNOPQRSTUVWXYZ_'')"

definition is_ident_char :: "char \<Rightarrow> bool" where
  "is_ident_char c = (is_ident_start c \<or> is_digit c)"

definition dquote :: char where
  "dquote = CHR 0x22"

datatype scan_mode = Between | InIdent string | InNumber string | InString string

text \<open>
  One pass over the characters of a line. A \<^verbatim>\<open>//\<close> comment ends the line; a block
  comment, a character literal, a backslash or an unclosed string literal gives
  \<open>None\<close>.
\<close>

function scan :: "scan_mode \<Rightarrow> string \<Rightarrow> token list option" where
  "scan Between [] = Some []"
| "scan Between (c # cs) =
     (if is_space c then scan Between cs
      else if c = CHR ''/'' \<and> cs \<noteq> [] \<and> hd cs = CHR ''/'' then Some []
      else if c = CHR ''/'' \<and> cs \<noteq> [] \<and> hd cs = CHR ''*'' then None
      else if c = CHR 0x27 \<or> c = CHR 0x5C then None
      else if is_ident_start c then scan (InIdent [c]) cs
      else if is_digit c then scan (InNumber [c]) cs
      else if c = dquote then scan (InString []) cs
      else map_option ((#) (Punct c)) (scan Between cs))"
| "scan (InIdent w) [] = Some [Ident w]"
| "scan (InIdent w) (c # cs) =
     (if is_ident_char c then scan (InIdent (w @ [c])) cs
      else map_option ((#) (Ident w)) (scan Between (c # cs)))"
| "scan (InNumber w) [] = Some [Number w]"
| "scan (InNumber w) (c # cs) =
     (if is_ident_char c \<or> c = CHR ''.'' then scan (InNumber (w @ [c])) cs
      else map_option ((#) (Number w)) (scan Between (c # cs)))"
| "scan (InString w) [] = None"
| "scan (InString w) (c # cs) =
     (if c = dquote then map_option ((#) (StrLit w)) (scan Between cs)
      else if c = CHR 0x5C then None
      else scan (InString (w @ [c])) cs)"
  by pat_completeness auto
termination
  by (relation "measure (\<lambda>(m, s). 2 * length s + (if m = Between then 0 else 1))") auto

definition tokens :: "string \<Rightarrow> token list option" where
  "tokens s = scan Between s"

subsection \<open>Recognising the directive of a line\<close>

definition parse_name :: "string \<Rightarrow> (string \<Rightarrow> pp_line) \<Rightarrow> pp_line" where
  "parse_name arg mk =
     (case tokens arg of Some [Ident n] \<Rightarrow> mk n | _ \<Rightarrow> Unsupported)"

definition parse_empty :: "string \<Rightarrow> pp_line \<Rightarrow> pp_line" where
  "parse_empty arg l = (case tokens arg of Some [] \<Rightarrow> l | _ \<Rightarrow> Unsupported)"

text \<open>
  \<^verbatim>\<open>#define\<close>: the macro name, then its replacement list. A left parenthesis right
  after the name starts a function-like macro, which the model does not cover.
\<close>

definition parse_define :: "string \<Rightarrow> pp_line" where
  "parse_define arg =
     (let a = dropWhile is_space arg;
          n = takeWhile is_ident_char a;
          body = dropWhile is_ident_char a
      in if n = [] \<or> \<not> is_ident_start (hd n) then Unsupported
         else if body \<noteq> [] \<and> hd body = CHR ''('' then Unsupported
         else (case tokens body of None \<Rightarrow> Unsupported | Some ts \<Rightarrow> Define n ts))"

definition parse_header_name ::
    "char \<Rightarrow> (string \<Rightarrow> header_name) \<Rightarrow> string \<Rightarrow> pp_line" where
  "parse_header_name close mk r =
     (let h = takeWhile (\<lambda>c. c \<noteq> close) r;
          rest = dropWhile (\<lambda>c. c \<noteq> close) r
      in if h = [] \<or> rest = [] then Unsupported
         else parse_empty (tl rest) (Include (mk h)))"

definition parse_include :: "string \<Rightarrow> pp_line" where
  "parse_include arg =
     (case dropWhile is_space arg of
        [] \<Rightarrow> Unsupported
      | c # r \<Rightarrow>
          if c = CHR ''<'' then parse_header_name (CHR ''>'') Angle r
          else if c = dquote then parse_header_name dquote Quoted r
          else Unsupported)"

definition parse_pragma :: "string \<Rightarrow> pp_line" where
  "parse_pragma arg =
     (case tokens arg of
        None \<Rightarrow> Unsupported
      | Some ts \<Rightarrow> if ts = [Ident ''once''] then PragmaOnce else Pragma ts)"

definition parse_directive :: "string \<Rightarrow> pp_line" where
  "parse_directive r =
     (let a = dropWhile is_space r;
          d = takeWhile is_ident_char a;
          arg = dropWhile is_ident_char a
      in if d = [] then parse_empty arg Blank
         else if d = ''pragma'' then parse_pragma arg
         else if d = ''ifdef'' then parse_name arg Ifdef
         else if d = ''ifndef'' then parse_name arg Ifndef
         else if d = ''else'' then parse_empty arg Else
         else if d = ''endif'' then parse_empty arg Endif
         else if d = ''define'' then parse_define arg
         else if d = ''undef'' then parse_name arg Undef
         else if d = ''include'' then parse_include arg
         else if d = ''error'' then
           (case tokens arg of None \<Rightarrow> Unsupported | Some ts \<Rightarrow> ErrorLine ts)
         else Unsupported)"

definition parse_line :: "string \<Rightarrow> pp_line" where
  "parse_line s =
     (case dropWhile is_space s of
        [] \<Rightarrow> Blank
      | c # r \<Rightarrow>
          if c = CHR ''#'' then parse_directive r
          else (case tokens (c # r) of
                  None \<Rightarrow> Unsupported
                | Some [] \<Rightarrow> Blank
                | Some ts \<Rightarrow> Text ts))"

text \<open>The header as the preprocessor reads it.\<close>

definition SmartCL_h :: "pp_line list" where
  "SmartCL_h = map parse_line SmartCL_h_text"


section \<open>Preprocessing\<close>

text \<open>
  The header has no functions of its own: what it does is what the preprocessor does
  with its lines. The rules below are those of the preprocessing directives of C and
  C++ for the directives the header and its users need (conditional groups by
  \<^verbatim>\<open>#ifdef\<close>, \<^verbatim>\<open>#ifndef\<close>, \<^verbatim>\<open>#else\<close>, \<^verbatim>\<open>#endif\<close>; object-like macros;
  \<^verbatim>\<open>#include\<close>; \<^verbatim>\<open>#pragma\<close>; \<^verbatim>\<open>#error\<close>), with \<^verbatim>\<open>#pragma once\<close> as the Microsoft,
  GNU and Clang compilers carry it out: a file that has met it is not read again by a
  later \<^verbatim>\<open>#include\<close>. A file is known by the name it is included under.
\<close>

subsection \<open>Macros\<close>

text \<open>
  Object-like macros only: a table from names to replacement lists. Defining a name
  again replaces its entry (the compilers this header is written for warn about an
  incompatible redefinition and go on with the new one).
\<close>

type_synonym macro_table = "(string \<times> token list) list"

definition is_defined :: "string \<Rightarrow> macro_table \<Rightarrow> bool" where
  "is_defined n m = (map_of m n \<noteq> None)"

definition undef_macro :: "string \<Rightarrow> macro_table \<Rightarrow> macro_table" where
  "undef_macro n m = filter (\<lambda>p. fst p \<noteq> n) m"

definition define_macro :: "string \<Rightarrow> token list \<Rightarrow> macro_table \<Rightarrow> macro_table" where
  "define_macro n r m = (n, r) # undef_macro n m"

text \<open>
  Macro replacement with rescanning: the replacement list of a macro is scanned again
  for macro names, except for the names of the macros being replaced at that moment.
\<close>

function expand_token :: "macro_table \<Rightarrow> string list \<Rightarrow> token \<Rightarrow> token list" where
  "expand_token m hide (Ident n) =
     (if n \<in> set hide then [Ident n]
      else (case map_of m n of
              None \<Rightarrow> [Ident n]
            | Some r \<Rightarrow> concat (map (expand_token m (n # hide)) r)))"
| "expand_token m hide (Number w) = [Number w]"
| "expand_token m hide (StrLit w) = [StrLit w]"
| "expand_token m hide (Punct c) = [Punct c]"
  by pat_completeness auto
termination
proof (relation "measure (\<lambda>(m, hide, t). card (fst ` set m - set hide))")
  show "wf (measure (\<lambda>(m, hide, t). card (fst ` set m - set hide)))"
    by simp
next
  fix m :: macro_table and hide :: "string list" and n r and t :: token
  assume fresh: "n \<notin> set hide" and entry: "map_of m n = Some r"
  from entry have "n \<in> fst ` set m"
    by (metis map_of_eq_None_iff option.distinct(1))
  with fresh have "fst ` set m - set (n # hide) \<subset> fst ` set m - set hide"
    by auto
  then have "card (fst ` set m - set (n # hide)) < card (fst ` set m - set hide)"
    by (intro psubset_card_mono) simp_all
  then show "((m, n # hide, t), (m, hide, Ident n))
      \<in> measure (\<lambda>(m, hide, t). card (fst ` set m - set hide))"
    by simp
qed

definition expand :: "macro_table \<Rightarrow> token list \<Rightarrow> token list" where
  "expand m ts = concat (map (expand_token m []) ts)"

subsection \<open>State, effects and errors\<close>

text \<open>
  What the preprocessor remembers between lines: the macros defined and the files
  marked by \<^verbatim>\<open>#pragma once\<close>.
\<close>

record pp_state =
  macros :: macro_table
  once_files :: "string list"

text \<open>
  What a line does, in the order in which it is done: \<open>MarkedOnce\<close> for
  \<^verbatim>\<open>#pragma once\<close> (addressed to the preprocessor itself), \<open>PragmaIssued\<close> for a pragma
  handed on to the compiler, \<open>Included\<close> for a file read, \<open>Emitted\<close> for the tokens of a
  text line after macro replacement.
\<close>

datatype event =
    MarkedOnce string
  | Defined string "token list"
  | Undefined string
  | Included header_name
  | PragmaIssued "token list"
  | Emitted "token list"

datatype pp_error =
    ElseWithoutIf
  | ElseAfterElse
  | EndifWithoutIf
  | MissingEndif
  | ErrorDirective "token list"
  | UnsupportedLine

type_synonym outcome = "pp_error + (event list \<times> pp_state)"

text \<open>How an \<^verbatim>\<open>#include\<close> is carried out is given to the interpreter.\<close>

type_synonym resolver = "header_name \<Rightarrow> pp_state \<Rightarrow> outcome"

subsection \<open>Conditional groups\<close>

text \<open>
  One frame for each open \<^verbatim>\<open>#ifdef\<close>/\<^verbatim>\<open>#ifndef\<close>: whether its condition held and
  whether its \<^verbatim>\<open>#else\<close> has been passed. Lines are carried out when every open frame
  is in its live branch.
\<close>

datatype frame = Frame (holds: bool) (in_else: bool)

definition active :: "frame list \<Rightarrow> bool" where
  "active stk = list_all (\<lambda>fr. holds fr \<noteq> in_else fr) stk"

subsection \<open>Lines\<close>

text \<open>A line of a live group that is not a conditional directive.\<close>

fun directive :: "resolver \<Rightarrow> string \<Rightarrow> pp_line \<Rightarrow> pp_state \<Rightarrow> outcome" where
  "directive res f PragmaOnce s =
     Inr ([MarkedOnce f], s\<lparr>once_files := List.insert f (once_files s)\<rparr>)"
| "directive res f (Pragma ts) s = Inr ([PragmaIssued ts], s)"
| "directive res f (Define n r) s =
     Inr ([Defined n r], s\<lparr>macros := define_macro n r (macros s)\<rparr>)"
| "directive res f (Undef n) s =
     Inr ([Undefined n], s\<lparr>macros := undef_macro n (macros s)\<rparr>)"
| "directive res f (Include h) s = res h s"
| "directive res f (ErrorLine ts) s = Inl (ErrorDirective ts)"
| "directive res f (Text ts) s = Inr ([Emitted (expand (macros s) ts)], s)"
| "directive res f l s = Inr ([], s)"

definition and_then :: "outcome \<Rightarrow> (pp_state \<Rightarrow> outcome) \<Rightarrow> outcome" where
  "and_then r k =
     (case r of
        Inl e \<Rightarrow> Inl e
      | Inr (evs, s) \<Rightarrow>
          (case k s of Inl e \<Rightarrow> Inl e | Inr (evs', s') \<Rightarrow> Inr (evs @ evs', s')))"

text \<open>
  The lines of file \<open>f\<close> from top to bottom, with the stack of open conditionals.
  An unsupported line stops the run wherever it stands.
\<close>

fun process_lines ::
    "resolver \<Rightarrow> string \<Rightarrow> pp_line list \<Rightarrow> frame list \<Rightarrow> pp_state \<Rightarrow> outcome" where
  "process_lines res f [] stk s =
     (if stk = [] then Inr ([], s) else Inl MissingEndif)"
| "process_lines res f (Unsupported # ls) stk s = Inl UnsupportedLine"
| "process_lines res f (Ifdef n # ls) stk s =
     process_lines res f ls (Frame (is_defined n (macros s)) False # stk) s"
| "process_lines res f (Ifndef n # ls) stk s =
     process_lines res f ls (Frame (\<not> is_defined n (macros s)) False # stk) s"
| "process_lines res f (Else # ls) stk s =
     (case stk of
        [] \<Rightarrow> Inl ElseWithoutIf
      | fr # rest \<Rightarrow>
          if in_else fr then Inl ElseAfterElse
          else process_lines res f ls (Frame (holds fr) True # rest) s)"
| "process_lines res f (Endif # ls) stk s =
     (case stk of
        [] \<Rightarrow> Inl EndifWithoutIf
      | fr # rest \<Rightarrow> process_lines res f ls rest s)"
| "process_lines res f (l # ls) stk s =
     (if active stk then and_then (directive res f l s) (process_lines res f ls stk)
      else process_lines res f ls stk s)"

definition preprocess :: "resolver \<Rightarrow> string \<Rightarrow> pp_line list \<Rightarrow> pp_state \<Rightarrow> outcome" where
  "preprocess res f ls s = process_lines res f ls [] s"

subsection \<open>Including files\<close>

text \<open>
  The headers \<^verbatim>\<open>windows.h\<close> and \<^verbatim>\<open>stdio.h\<close> belong to the platform, not to the
  repository. They are a parameter: for each header a function on the macro table,
  which may define and undefine whatever it likes. Reading such a header is assumed to
  succeed.
\<close>

type_synonym platform = "header_name \<Rightarrow> macro_table \<Rightarrow> macro_table"

definition platform_include :: "platform \<Rightarrow> resolver" where
  "platform_include sys h s = Inr ([Included h], s\<lparr>macros := sys h (macros s)\<rparr>)"

text \<open>Preprocessing the lines of the header.\<close>

definition preprocess_SmartCL_h :: "platform \<Rightarrow> pp_state \<Rightarrow> outcome" where
  "preprocess_SmartCL_h sys s =
     preprocess (platform_include sys) SmartCL_h_name SmartCL_h s"

text \<open>
  \<^verbatim>\<open>#include "SmartCL.h"\<close> in a translation unit: a file marked by
  \<^verbatim>\<open>#pragma once\<close> is not read again.
\<close>

definition include_SmartCL_h :: "platform \<Rightarrow> pp_state \<Rightarrow> outcome" where
  "include_SmartCL_h sys s =
     (if SmartCL_h_name \<in> set (once_files s) then Inr ([], s)
      else and_then (Inr ([Included (Quoted SmartCL_h_name)], s))
             (preprocess_SmartCL_h sys))"

definition unit_include :: "platform \<Rightarrow> resolver" where
  "unit_include sys h s =
     (if h = Quoted SmartCL_h_name then include_SmartCL_h sys s
      else platform_include sys h s)"

text \<open>A translation unit \<open>f\<close> that may include the header.\<close>

definition translate :: "platform \<Rightarrow> string \<Rightarrow> pp_line list \<Rightarrow> pp_state \<Rightarrow> outcome" where
  "translate sys f ls s = preprocess (unit_include sys) f ls s"

subsection \<open>Reading the effects\<close>

fun definitions_of :: "event list \<Rightarrow> (string \<times> token list) list" where
  "definitions_of [] = []"
| "definitions_of (Defined n r # evs) = (n, r) # definitions_of evs"
| "definitions_of (e # evs) = definitions_of evs"

fun includes_of :: "event list \<Rightarrow> header_name list" where
  "includes_of [] = []"
| "includes_of (Included h # evs) = h # includes_of evs"
| "includes_of (e # evs) = includes_of evs"

fun pragmas_of :: "event list \<Rightarrow> token list list" where
  "pragmas_of [] = []"
| "pragmas_of (PragmaIssued ts # evs) = ts # pragmas_of evs"
| "pragmas_of (e # evs) = pragmas_of evs"

fun emitted_of :: "event list \<Rightarrow> token list" where
  "emitted_of [] = []"
| "emitted_of (Emitted ts # evs) = ts @ emitted_of evs"
| "emitted_of (e # evs) = emitted_of evs"

subsection \<open>Kinds of lines\<close>

datatype line_kind = NoTokens | DirectiveLine | ProgramText | NotUnderstood

fun kind_of :: "pp_line \<Rightarrow> line_kind" where
  "kind_of Blank = NoTokens"
| "kind_of (Text ts) = ProgramText"
| "kind_of Unsupported = NotUnderstood"
| "kind_of l = DirectiveLine"

subsection \<open>Sample builds\<close>

text \<open>
  A build with \<^verbatim>\<open>/D_WINDOWS\<close> on the command line, a build without it, and a Windows
  build that comes to the header with macros of its own and with another file already
  marked.
\<close>

definition windows_build :: pp_state where
  "windows_build = \<lparr>macros = [(''_WINDOWS'', [Number ''1''])], once_files = []\<rparr>"

definition other_build :: pp_state where
  "other_build = \<lparr>macros = [], once_files = []\<rparr>"

definition busy_windows_build :: pp_state where
  "busy_windows_build =
     \<lparr>macros = [(''kernel'', [Ident ''__kernel'']), (''NDEBUG'', []), (''_WINDOWS'', [])],
      once_files = [''stdafx.h'']\<rparr>"

text \<open>A platform whose two headers each define a macro, and one whose headers define none.\<close>

definition sample_platform :: platform where
  "sample_platform h m =
     (if h = Angle ''windows.h'' then define_macro ''_WINDOWS_'' [] m
      else if h = Angle ''stdio.h'' then define_macro ''_INC_STDIO'' [] m
      else m)"

definition bare_platform :: platform where
  "bare_platform h m = m"

text \<open>
  A translation unit that asks whether the header gave it \<^verbatim>\<open>kernel\<close> before it uses
  \<^verbatim>\<open>kernel\<close> and \<^verbatim>\<open>global\<close>, and one that includes the header three times.
\<close>

definition guarded_unit :: "pp_line list" where
  \<open>guarded_unit = map parse_line
     [''#include "SmartCL.h"'',
      ''#ifdef kernel'',
      ''kernel void scale(global float* data);'',
      ''#endif'']\<close>

definition eager_unit :: "pp_line list" where
  \<open>eager_unit = map parse_line
     [''#include "SmartCL.h"'',
      ''#include "SmartCL.h"'',
      ''kernel void scale(global float* data);'',
      ''#include "SmartCL.h"'']\<close>


subsection \<open>The lines before a line\<close>




subsection \<open>Compiling what the preprocessor hands on\<close>




subsection \<open>More samples\<close>

text \<open>
  A Windows build that turns \<^verbatim>\<open>dllexport\<close> into \<^verbatim>\<open>dllimport\<close> on the command line;
  the names a compiler knows when it meets the sample units (keywords, and the two
  names their one declaration declares); and a unit that uses \<^verbatim>\<open>kernel\<close> and
  \<^verbatim>\<open>global\<close> in live text.
\<close>

definition importing_build :: pp_state where
  "importing_build =
     \<lparr>macros = [(''dllexport'', [Ident ''dllimport'']), (''_WINDOWS'', [Number ''1''])],
      once_files = []\<rparr>"


definition plain_unit :: "pp_line list" where
  \<open>plain_unit = map parse_line
     [''#include "SmartCL.h"'',
      ''kernel void scale(global float* data);'']\<close>

section \<open>The header, line by line\<close>

lemma SmartCL_h_lines:
  "SmartCL_h =
    [PragmaOnce,
     Blank,
     Ifdef ''_WINDOWS'',
     Blank,
     Define ''WIN32_LEAN_AND_MEAN'' [],
     Include (Angle ''windows.h''),
     Include (Angle ''stdio.h''),
     Blank,
     Define ''kernel''
       [Ident ''extern'', StrLit ''C'', Ident ''__declspec'', Punct CHR ''('',
        Ident ''dllexport'', Punct CHR '')''],
     Define ''global'' [],
     Define ''local'' [],
     Blank,
     Pragma
       [Ident ''warning'', Punct CHR ''('', Ident ''disable'', Punct CHR '':'',
        Number ''4326'', Punct CHR '')''],
     Blank,
     Endif]"
  by code_simp

lemma guarded_unit_lines:
  "guarded_unit =
    [Include (Quoted ''SmartCL.h''),
     Ifdef ''kernel'',
     Text [Ident ''kernel'', Ident ''void'', Ident ''scale'', Punct CHR ''('',
           Ident ''global'', Ident ''float'', Punct CHR ''*'', Ident ''data'',
           Punct CHR '')'', Punct CHR '';''],
     Endif]"
  by code_simp

lemma eager_unit_lines:
  "eager_unit =
    [Include (Quoted ''SmartCL.h''),
     Include (Quoted ''SmartCL.h''),
     Text [Ident ''kernel'', Ident ''void'', Ident ''scale'', Punct CHR ''('',
           Ident ''global'', Ident ''float'', Punct CHR ''*'', Ident ''data'',
           Punct CHR '')'', Punct CHR '';''],
     Include (Quoted ''SmartCL.h'')]"
  by code_simp


section \<open>Macro tables and replacement\<close>

lemma map_of_undef_macro [simp]:
  "map_of (undef_macro n m) k = (if k = n then None else map_of m k)"
  by (induction m) (auto simp: undef_macro_def)

lemma map_of_define_macro [simp]:
  "map_of (define_macro n r m) k = (if k = n then Some r else map_of m k)"
  by (simp add: define_macro_def)

lemma expand_Nil [simp]: "expand m [] = []"
  by (simp add: expand_def)

lemma expand_append: "expand m (xs @ ys) = expand m xs @ expand m ys"
  by (simp add: expand_def)

lemma expand_Cons: "expand m (t # ts) = expand_token m [] t @ expand m ts"
  by (simp add: expand_def)

lemma expand_empty_macro:
  "map_of m n = Some [] \<Longrightarrow> expand m (xs @ Ident n # ys) = expand m xs @ expand m ys"
  by (simp add: expand_append expand_Cons)



section \<open>What preprocessing the header does\<close>

lemma and_then_Inl [simp]: "and_then (Inl e) k = Inl e"
  by (simp add: and_then_def)

lemma and_then_Inr [simp]:
  "and_then (Inr (evs, s)) k =
     (case k s of Inl e \<Rightarrow> Inl e | Inr (evs', s') \<Rightarrow> Inr (evs @ evs', s'))"
  by (simp add: and_then_def)

lemma and_then_unit: "and_then (Inr ([], s)) k = k s"
  by (simp split: sum.splits)

lemma and_then_cong_on_result:
  assumes "\<And>evs s'. r = Inr (evs, s') \<Longrightarrow> k s' = k' s'"
  shows "and_then r k = and_then r k'"
  using assms by (cases r) (auto simp: and_then_def)

text \<open>The two runs of the header: with \<^verbatim>\<open>_WINDOWS\<close> defined, and without.\<close>

lemma on_windows:
  assumes "is_defined ''_WINDOWS'' (macros s)"
  shows "preprocess_SmartCL_h sys s =
    Inr ([MarkedOnce SmartCL_h_name,
          Defined ''WIN32_LEAN_AND_MEAN'' [],
          Included (Angle ''windows.h''),
          Included (Angle ''stdio.h''),
          Defined ''kernel''
            [Ident ''extern'', StrLit ''C'', Ident ''__declspec'', Punct CHR ''('',
             Ident ''dllexport'', Punct CHR '')''],
          Defined ''global'' [],
          Defined ''local'' [],
          PragmaIssued
            [Ident ''warning'', Punct CHR ''('', Ident ''disable'', Punct CHR '':'',
             Number ''4326'', Punct CHR '')'']],
         s\<lparr>macros :=
             define_macro ''local'' []
               (define_macro ''global'' []
                 (define_macro ''kernel''
                    [Ident ''extern'', StrLit ''C'', Ident ''__declspec'', Punct CHR ''('',
                     Ident ''dllexport'', Punct CHR '')'']
                    (sys (Angle ''stdio.h'')
                      (sys (Angle ''windows.h'')
                        (define_macro ''WIN32_LEAN_AND_MEAN'' [] (macros s)))))),
           once_files := List.insert SmartCL_h_name (once_files s)\<rparr>)"
  using assms
  by (simp add: preprocess_SmartCL_h_def preprocess_def SmartCL_h_lines active_def
      platform_include_def)

lemma off_windows:
  assumes "\<not> is_defined ''_WINDOWS'' (macros s)"
  shows "preprocess_SmartCL_h sys s =
    Inr ([MarkedOnce SmartCL_h_name],
         s\<lparr>once_files := List.insert SmartCL_h_name (once_files s)\<rparr>)"
  using assms
  by (simp add: preprocess_SmartCL_h_def preprocess_def SmartCL_h_lines active_def
      platform_include_def)

lemma windows_build_defined: "is_defined ''_WINDOWS'' (macros windows_build)"
  by (simp add: windows_build_def is_defined_def)

lemma busy_windows_build_defined: "is_defined ''_WINDOWS'' (macros busy_windows_build)"
  by (simp add: busy_windows_build_def is_defined_def)

lemma other_build_undefined: "\<not> is_defined ''_WINDOWS'' (macros other_build)"
  by (simp add: other_build_def is_defined_def)

lemma sample_windows_run:
  "preprocess_SmartCL_h sample_platform windows_build =
    Inr ([MarkedOnce ''SmartCL.h'',
          Defined ''WIN32_LEAN_AND_MEAN'' [],
          Included (Angle ''windows.h''),
          Included (Angle ''stdio.h''),
          Defined ''kernel''
            [Ident ''extern'', StrLit ''C'', Ident ''__declspec'', Punct CHR ''('',
             Ident ''dllexport'', Punct CHR '')''],
          Defined ''global'' [],
          Defined ''local'' [],
          PragmaIssued
            [Ident ''warning'', Punct CHR ''('', Ident ''disable'', Punct CHR '':'',
             Number ''4326'', Punct CHR '')'']],
         \<lparr>macros =
            [(''local'', []),
             (''global'', []),
             (''kernel'',
              [Ident ''extern'', StrLit ''C'', Ident ''__declspec'', Punct CHR ''('',
               Ident ''dllexport'', Punct CHR '')'']),
             (''_INC_STDIO'', []),
             (''_WINDOWS_'', []),
             (''WIN32_LEAN_AND_MEAN'', []),
             (''_WINDOWS'', [Number ''1''])],
          once_files = [''SmartCL.h'']\<rparr>)"
  by code_simp



section \<open>Including the header again\<close>

lemma include_marked:
  "SmartCL_h_name \<in> set (once_files s) \<Longrightarrow> include_SmartCL_h sys s = Inr ([], s)"
  by (simp add: include_SmartCL_h_def)

lemma unit_include_marked:
  "SmartCL_h_name \<in> set (once_files s) \<Longrightarrow>
   unit_include sys (Quoted SmartCL_h_name) s = Inr ([], s)"
  by (simp add: unit_include_def include_marked)

lemma preprocess_SmartCL_h_marks:
  assumes "preprocess_SmartCL_h sys s = Inr (evs, s')"
  shows "SmartCL_h_name \<in> set (once_files s')"
proof (cases "is_defined ''_WINDOWS'' (macros s)")
  case True
  from on_windows [OF True, of sys] assms show ?thesis by auto
next
  case False
  from off_windows [OF False, of sys] assms show ?thesis by auto
qed

lemma include_SmartCL_h_marks:
  assumes "include_SmartCL_h sys s = Inr (evs, s')"
  shows "SmartCL_h_name \<in> set (once_files s')"
proof (cases "SmartCL_h_name \<in> set (once_files s)")
  case True
  with assms show ?thesis by (simp add: include_marked)
next
  case False
  with assms obtain evs' where "preprocess_SmartCL_h sys s = Inr (evs', s')"
    by (auto simp: include_SmartCL_h_def split: sum.splits)
  then show ?thesis by (rule preprocess_SmartCL_h_marks)
qed

text \<open>No line of a translation unit takes the mark away.\<close>

lemma directive_keeps_mark:
  assumes "SmartCL_h_name \<in> set (once_files s)"
    and "directive (unit_include sys) f l s = Inr (evs, s')"
  shows "SmartCL_h_name \<in> set (once_files s')"
  using assms
  by (cases l)
    (auto simp: unit_include_def include_marked platform_include_def split: if_splits)

text \<open>Once the header is marked, the lines that include it may be struck out.\<close>

lemma reinclude_dropped:
  assumes "SmartCL_h_name \<in> set (once_files s)"
  shows "process_lines (unit_include sys) f ls stk s =
         process_lines (unit_include sys) f
           (filter (\<lambda>l. l \<noteq> Include (Quoted SmartCL_h_name)) ls) stk s"
  using assms
proof (induction ls arbitrary: stk s)
  case Nil
  show ?case by simp
next
  case (Cons l ls)
  note mark = Cons.prems
  have step: "and_then (directive (unit_include sys) f l s)
                (process_lines (unit_include sys) f ls stk) =
              and_then (directive (unit_include sys) f l s)
                (process_lines (unit_include sys) f
                   (filter (\<lambda>l. l \<noteq> Include (Quoted SmartCL_h_name)) ls) stk)"
    by (rule and_then_cong_on_result) (rule Cons.IH, rule directive_keeps_mark [OF mark])
  show ?case
  proof (cases l)
    case (Include h)
    show ?thesis
    proof (cases "h = Quoted SmartCL_h_name")
      case True
      with Include mark show ?thesis
        by (simp add: unit_include_marked and_then_unit Cons.IH del: and_then_Inr)
    next
      case False
      with Include mark step show ?thesis
        by (simp add: Cons.IH)
    qed
  next
    case Else
    with mark show ?thesis by (simp add: Cons.IH split: list.splits)
  next
    case Endif
    with mark show ?thesis by (simp add: Cons.IH split: list.splits)
  qed (use mark step in \<open>simp_all add: Cons.IH\<close>)
qed


section \<open>Names that reach the compiler\<close>













lemma plain_unit_lines:
  "plain_unit =
    [Include (Quoted ''SmartCL.h''),
     Text [Ident ''kernel'', Ident ''void'', Ident ''scale'', Punct CHR ''('',
           Ident ''global'', Ident ''float'', Punct CHR ''*'', Ident ''data'',
           Punct CHR '')'', Punct CHR '';'']]"
  by code_simp


section \<open>The claims\<close>

text \<open>
  C1, as amended. In every build that has \<^verbatim>\<open>_WINDOWS\<close> defined when the header is
  read, the lines of the header raise no error (the two platform headers are taken to be
  read without error) and leave \<^verbatim>\<open>kernel\<close> defined with the replacement list
  \<^verbatim>\<open>extern "C" __declspec(dllexport)\<close>, whatever the two platform headers do to the
  macro table; and where none of \<^verbatim>\<open>extern\<close>, \<^verbatim>\<open>__declspec\<close> and \<^verbatim>\<open>dllexport\<close> is
  itself a macro, \<^verbatim>\<open>kernel\<close> is replaced by exactly these six tokens.
\<close>

theorem kernel_on_windows:
  assumes "is_defined ''_WINDOWS'' (macros s)"
  shows "\<exists>evs s'. preprocess_SmartCL_h sys s = Inr (evs, s') \<and>
           map_of (macros s') ''kernel'' =
             Some [Ident ''extern'', StrLit ''C'', Ident ''__declspec'', Punct CHR ''('',
                   Ident ''dllexport'', Punct CHR '')''] \<and>
           (\<not> is_defined ''extern'' (macros s') \<and>
            \<not> is_defined ''__declspec'' (macros s') \<and>
            \<not> is_defined ''dllexport'' (macros s') \<longrightarrow>
              expand (macros s') [Ident ''kernel''] =
                [Ident ''extern'', StrLit ''C'', Ident ''__declspec'', Punct CHR ''('',
                 Ident ''dllexport'', Punct CHR '')''])"
  using on_windows [OF assms, of sys]
  by (simp add: expand_def is_defined_def)

theorem kernel_on_windows_witness:
  "is_defined ''_WINDOWS'' (macros windows_build) \<and>
   (\<exists>evs s'. preprocess_SmartCL_h sample_platform windows_build = Inr (evs, s') \<and>
      map_of (macros s') ''kernel'' =
        Some [Ident ''extern'', StrLit ''C'', Ident ''__declspec'', Punct CHR ''('',
              Ident ''dllexport'', Punct CHR '')''] \<and>
      expand (macros s') [Ident ''kernel''] =
        [Ident ''extern'', StrLit ''C'', Ident ''__declspec'', Punct CHR ''('',
         Ident ''dllexport'', Punct CHR '')''])"
proof -
  from kernel_on_windows [OF windows_build_defined, of sample_platform]
  obtain evs s' where
    run: "preprocess_SmartCL_h sample_platform windows_build = Inr (evs, s')" and
    table: "map_of (macros s') ''kernel'' =
        Some [Ident ''extern'', StrLit ''C'', Ident ''__declspec'', Punct CHR ''('',
              Ident ''dllexport'', Punct CHR '')'']" and
    replaced: "\<not> is_defined ''extern'' (macros s') \<and>
        \<not> is_defined ''__declspec'' (macros s') \<and>
        \<not> is_defined ''dllexport'' (macros s') \<longrightarrow>
          expand (macros s') [Ident ''kernel''] =
            [Ident ''extern'', StrLit ''C'', Ident ''__declspec'', Punct CHR ''('',
             Ident ''dllexport'', Punct CHR '')'']"
    by blast
  from run have "\<not> is_defined ''extern'' (macros s') \<and>
      \<not> is_defined ''__declspec'' (macros s') \<and> \<not> is_defined ''dllexport'' (macros s')"
    by (auto simp: sample_windows_run is_defined_def)
  with replaced run table windows_build_defined show ?thesis
    by blast
qed

text \<open>
  C1, as it was stated, fails: a replacement list is scanned again for macros, so in a
  Windows build in which \<^verbatim>\<open>dllexport\<close> is a macro (here it stands for
  \<^verbatim>\<open>dllimport\<close>, set on the command line) \<^verbatim>\<open>kernel\<close> has the replacement list of
  the source and yet does not expand to \<^verbatim>\<open>extern "C" __declspec(dllexport)\<close>.
\<close>

theorem kernel_rescanned:
  "is_defined ''_WINDOWS'' (macros importing_build) \<and>
   preprocess_SmartCL_h bare_platform importing_build =
     Inr ([MarkedOnce ''SmartCL.h'',
           Defined ''WIN32_LEAN_AND_MEAN'' [],
           Included (Angle ''windows.h''),
           Included (Angle ''stdio.h''),
           Defined ''kernel''
             [Ident ''extern'', StrLit ''C'', Ident ''__declspec'', Punct CHR ''('',
              Ident ''dllexport'', Punct CHR '')''],
           Defined ''global'' [],
           Defined ''local'' [],
           PragmaIssued
             [Ident ''warning'', Punct CHR ''('', Ident ''disable'', Punct CHR '':'',
              Number ''4326'', Punct CHR '')'']],
          \<lparr>macros =
             [(''local'', []),
              (''global'', []),
              (''kernel'',
               [Ident ''extern'', StrLit ''C'', Ident ''__declspec'', Punct CHR ''('',
                Ident ''dllexport'', Punct CHR '')'']),
              (''WIN32_LEAN_AND_MEAN'', []),
              (''dllexport'', [Ident ''dllimport'']),
              (''_WINDOWS'', [Number ''1''])],
           once_files = [''SmartCL.h'']\<rparr>) \<and>
   expand
     [(''local'', []),
      (''global'', []),
      (''kernel'',
       [Ident ''extern'', StrLit ''C'', Ident ''__declspec'', Punct CHR ''('',
        Ident ''dllexport'', Punct CHR '')'']),
      (''WIN32_LEAN_AND_MEAN'', []),
      (''dllexport'', [Ident ''dllimport'']),
      (''_WINDOWS'', [Number ''1''])]
     [Ident ''kernel''] =
     [Ident ''extern'', StrLit ''C'', Ident ''__declspec'', Punct CHR ''('',
      Ident ''dllimport'', Punct CHR '')''] \<and>
   [Ident ''extern'', StrLit ''C'', Ident ''__declspec'', Punct CHR ''('',
    Ident ''dllimport'', Punct CHR '')''] \<noteq>
   [Ident ''extern'', StrLit ''C'', Ident ''__declspec'', Punct CHR ''('',
    Ident ''dllexport'', Punct CHR '')'']"
  by code_simp




text \<open>
  C3. In every build that has \<^verbatim>\<open>_WINDOWS\<close> defined when the header is read, the header
  leaves \<^verbatim>\<open>global\<close> and \<^verbatim>\<open>local\<close> defined as object-like macros with empty
  replacement lists, so macro replacement removes every occurrence of either name from
  program text.
\<close>

theorem global_local_on_windows:
  assumes "is_defined ''_WINDOWS'' (macros s)"
  shows "\<exists>evs s'. preprocess_SmartCL_h sys s = Inr (evs, s') \<and>
           map_of (macros s') ''global'' = Some [] \<and>
           map_of (macros s') ''local'' = Some [] \<and>
           (\<forall>xs ys. expand (macros s') (xs @ Ident ''global'' # ys) =
                      expand (macros s') xs @ expand (macros s') ys) \<and>
           (\<forall>xs ys. expand (macros s') (xs @ Ident ''local'' # ys) =
                      expand (macros s') xs @ expand (macros s') ys)"
  using on_windows [OF assms, of sys]
  by (simp add: expand_empty_macro)

theorem global_local_on_windows_witness:
  "is_defined ''_WINDOWS'' (macros windows_build) \<and>
   (\<exists>evs s'. preprocess_SmartCL_h sample_platform windows_build = Inr (evs, s') \<and>
      map_of (macros s') ''global'' = Some [] \<and>
      map_of (macros s') ''local'' = Some [] \<and>
      expand (macros s') [Ident ''global'', Ident ''float''] =
        expand (macros s') [Ident ''float''] \<and>
      expand (macros s') [Ident ''local'', Ident ''float''] =
        expand (macros s') [Ident ''float''])"
proof -
  from global_local_on_windows [OF windows_build_defined, of sample_platform]
  obtain evs s' where
    run: "preprocess_SmartCL_h sample_platform windows_build = Inr (evs, s')" and
    g: "map_of (macros s') ''global'' = Some []" and
    l: "map_of (macros s') ''local'' = Some []" and
    no_g: "\<And>xs ys. expand (macros s') (xs @ Ident ''global'' # ys) =
                      expand (macros s') xs @ expand (macros s') ys" and
    no_l: "\<And>xs ys. expand (macros s') (xs @ Ident ''local'' # ys) =
                      expand (macros s') xs @ expand (macros s') ys"
    by blast
  from no_g [of "[]" "[Ident ''float'']"] no_l [of "[]" "[Ident ''float'']"]
  have "expand (macros s') [Ident ''global'', Ident ''float''] =
          expand (macros s') [Ident ''float'']"
    and "expand (macros s') [Ident ''local'', Ident ''float''] =
          expand (macros s') [Ident ''float'']"
    by simp_all
  with run g l windows_build_defined show ?thesis
    by blast
qed

text \<open>
  C4. In every build that lacks \<^verbatim>\<open>_WINDOWS\<close> when the header is read, preprocessing
  the header raises no error and gives the translation unit nothing: no tokens, no
  included file, no macro definition and no pragma for the compiler. All it does is
  mark itself as read once, which is a note of the preprocessor's.
\<close>

theorem nothing_off_windows:
  assumes "\<not> is_defined ''_WINDOWS'' (macros s)"
  shows "\<exists>evs s'. preprocess_SmartCL_h sys s = Inr (evs, s') \<and>
           evs = [MarkedOnce SmartCL_h_name] \<and>
           emitted_of evs = [] \<and>
           includes_of evs = [] \<and>
           definitions_of evs = [] \<and>
           pragmas_of evs = [] \<and>
           macros s' = macros s"
  using off_windows [OF assms, of sys]
  by simp

theorem nothing_off_windows_witness:
  "\<not> is_defined ''_WINDOWS'' (macros other_build) \<and>
   (\<exists>evs s'. preprocess_SmartCL_h sample_platform other_build = Inr (evs, s') \<and>
      evs = [MarkedOnce SmartCL_h_name] \<and>
      emitted_of evs = [] \<and>
      includes_of evs = [] \<and>
      definitions_of evs = [] \<and>
      pragmas_of evs = [] \<and>
      macros s' = macros other_build)"
  using nothing_off_windows [OF other_build_undefined, of sample_platform]
    other_build_undefined
  by blast

text \<open>
  C5. The files the header includes are \<^verbatim>\<open><windows.h>\<close> and \<^verbatim>\<open><stdio.h>\<close>, in this
  order, when \<^verbatim>\<open>_WINDOWS\<close> is defined, and none at all when it is not; so each of the
  two is included if and only if \<^verbatim>\<open>_WINDOWS\<close> is defined.
\<close>

theorem includes_iff_windows:
  "\<exists>evs s'. preprocess_SmartCL_h sys s = Inr (evs, s') \<and>
     includes_of evs =
       (if is_defined ''_WINDOWS'' (macros s)
        then [Angle ''windows.h'', Angle ''stdio.h''] else []) \<and>
     (Angle ''windows.h'' \<in> set (includes_of evs)) = is_defined ''_WINDOWS'' (macros s) \<and>
     (Angle ''stdio.h'' \<in> set (includes_of evs)) = is_defined ''_WINDOWS'' (macros s)"
proof (cases "is_defined ''_WINDOWS'' (macros s)")
  case True
  with on_windows [OF True, of sys] show ?thesis by simp
next
  case False
  with off_windows [OF False, of sys] show ?thesis by simp
qed

theorem includes_iff_windows_witness:
  "(\<exists>evs s'. preprocess_SmartCL_h sample_platform windows_build = Inr (evs, s') \<and>
      includes_of evs = [Angle ''windows.h'', Angle ''stdio.h'']) \<and>
   (\<exists>evs s'. preprocess_SmartCL_h sample_platform other_build = Inr (evs, s') \<and>
      includes_of evs = [])"
  using includes_iff_windows [of sample_platform windows_build]
    includes_iff_windows [of sample_platform other_build]
    windows_build_defined other_build_undefined
  by auto

text \<open>
  C6. The first line of the header is \<^verbatim>\<open>#pragma once\<close>. Wherever a translation unit
  includes the header (in any state \<open>s\<close>, under any platform, with any conditionals
  \<open>stk\<close> open and any lines \<open>ls\<close> still to come), every later
  \<^verbatim>\<open>#include "SmartCL.h"\<close> may be struck out of the lines to come without changing
  the outcome: the same error, or the same effects in the same order (macros defined,
  files included, pragmas issued, tokens emitted) and the same final macro table and
  marks. In particular this holds for every translation unit that begins by including
  the header.
\<close>

theorem include_once:
  "hd SmartCL_h = PragmaOnce \<and>
   and_then (include_SmartCL_h sys s) (process_lines (unit_include sys) f ls stk) =
   and_then (include_SmartCL_h sys s)
     (process_lines (unit_include sys) f
        (filter (\<lambda>l. l \<noteq> Include (Quoted SmartCL_h_name)) ls) stk) \<and>
   translate sys f (Include (Quoted SmartCL_h_name) # ls) s =
   translate sys f
     (Include (Quoted SmartCL_h_name) #
      filter (\<lambda>l. l \<noteq> Include (Quoted SmartCL_h_name)) ls) s"
proof (intro conjI)
  show "hd SmartCL_h = PragmaOnce"
    by (simp add: SmartCL_h_lines)
  show later: "and_then (include_SmartCL_h sys s) (process_lines (unit_include sys) f ls stk) =
        and_then (include_SmartCL_h sys s)
          (process_lines (unit_include sys) f
             (filter (\<lambda>l. l \<noteq> Include (Quoted SmartCL_h_name)) ls) stk)" for stk
    by (rule and_then_cong_on_result) (rule reinclude_dropped, rule include_SmartCL_h_marks)
  from later [of "[]"]
  show "translate sys f (Include (Quoted SmartCL_h_name) # ls) s =
    translate sys f
     (Include (Quoted SmartCL_h_name) #
      filter (\<lambda>l. l \<noteq> Include (Quoted SmartCL_h_name)) ls) s"
    by (simp add: translate_def preprocess_def active_def)
      (simp add: unit_include_def)
qed

theorem include_once_witness:
  "translate sample_platform ''unit.cpp'' eager_unit windows_build =
   translate sample_platform ''unit.cpp''
     [Include (Quoted ''SmartCL.h''),
      Text [Ident ''kernel'', Ident ''void'', Ident ''scale'', Punct CHR ''('',
            Ident ''global'', Ident ''float'', Punct CHR ''*'', Ident ''data'',
            Punct CHR '')'', Punct CHR '';'']]
     windows_build"
  using include_once [where sys = sample_platform and f = "''unit.cpp''" and stk = "[]"
      and s = windows_build
      and ls = "[Include (Quoted ''SmartCL.h''),
        Text [Ident ''kernel'', Ident ''void'', Ident ''scale'', Punct CHR ''('',
              Ident ''global'', Ident ''float'', Punct CHR ''*'', Ident ''data'',
              Punct CHR '')'', Punct CHR '';''],
        Include (Quoted ''SmartCL.h'')]"]
  by (simp add: eager_unit_lines SmartCL_h_name_def)

text \<open>
  C7. The header hands the compiler the pragma \<^verbatim>\<open>warning (disable : 4326)\<close>, and no
  other, when \<^verbatim>\<open>_WINDOWS\<close> is defined; it hands the compiler no pragma when
  \<^verbatim>\<open>_WINDOWS\<close> is not defined. (What the compiler makes of the pragma is the
  compiler's business; the source's comment says it is there for \<^verbatim>\<open>void main\<close>.)
\<close>

theorem warning_pragma_iff_windows:
  "\<exists>evs s'. preprocess_SmartCL_h sys s = Inr (evs, s') \<and>
     pragmas_of evs =
       (if is_defined ''_WINDOWS'' (macros s)
        then [[Ident ''warning'', Punct CHR ''('', Ident ''disable'', Punct CHR '':'',
               Number ''4326'', Punct CHR '')'']]
        else []) \<and>
     (PragmaIssued [Ident ''warning'', Punct CHR ''('', Ident ''disable'', Punct CHR '':'',
                    Number ''4326'', Punct CHR '')''] \<in> set evs) =
       is_defined ''_WINDOWS'' (macros s)"
proof (cases "is_defined ''_WINDOWS'' (macros s)")
  case True
  with on_windows [OF True, of sys] show ?thesis by simp
next
  case False
  with off_windows [OF False, of sys] show ?thesis by simp
qed

theorem warning_pragma_iff_windows_witness:
  "(\<exists>evs s'. preprocess_SmartCL_h sample_platform windows_build = Inr (evs, s') \<and>
      pragmas_of evs =
        [[Ident ''warning'', Punct CHR ''('', Ident ''disable'', Punct CHR '':'',
          Number ''4326'', Punct CHR '')'']]) \<and>
   (\<exists>evs s'. preprocess_SmartCL_h sample_platform other_build = Inr (evs, s') \<and>
      pragmas_of evs = [])"
  using warning_pragma_iff_windows [of sample_platform windows_build]
    warning_pragma_iff_windows [of sample_platform other_build]
    windows_build_defined other_build_undefined
  by auto

text \<open>
  C8. The file has fifteen lines. Ten of them are preprocessor directives and the other
  five carry no token; no line holds program text and no line is beyond the directives
  understood here. The header therefore hands the compiler no token of its own in any
  build: there is no function, no declaration and no statement in it.
\<close>

theorem directives_only:
  "length SmartCL_h_text = 15 \<and>
   map kind_of SmartCL_h =
     [DirectiveLine, NoTokens, DirectiveLine, NoTokens,
      DirectiveLine, DirectiveLine, DirectiveLine, NoTokens,
      DirectiveLine, DirectiveLine, DirectiveLine, NoTokens,
      DirectiveLine, NoTokens, DirectiveLine] \<and>
   filter (\<lambda>l. kind_of l = ProgramText \<or> kind_of l = NotUnderstood) SmartCL_h = [] \<and>
   (\<exists>evs s'. preprocess_SmartCL_h sys s = Inr (evs, s') \<and> emitted_of evs = [])"
proof (intro conjI)
  show "length SmartCL_h_text = 15"
    by (simp add: SmartCL_h_text_def)
  show "map kind_of SmartCL_h =
     [DirectiveLine, NoTokens, DirectiveLine, NoTokens,
      DirectiveLine, DirectiveLine, DirectiveLine, NoTokens,
      DirectiveLine, DirectiveLine, DirectiveLine, NoTokens,
      DirectiveLine, NoTokens, DirectiveLine]"
    by (simp add: SmartCL_h_lines)
  show "filter (\<lambda>l. kind_of l = ProgramText \<or> kind_of l = NotUnderstood) SmartCL_h = []"
    by (simp add: SmartCL_h_lines)
  show "\<exists>evs s'. preprocess_SmartCL_h sys s = Inr (evs, s') \<and> emitted_of evs = []"
  proof (cases "is_defined ''_WINDOWS'' (macros s)")
    case True
    from on_windows [OF True, of sys] show ?thesis by simp
  next
    case False
    from off_windows [OF False, of sys] show ?thesis by simp
  qed
qed

theorem directives_only_witness:
  "length SmartCL_h_text = 15 \<and>
   length (filter (\<lambda>l. kind_of l = DirectiveLine) SmartCL_h) = 10 \<and>
   length (filter (\<lambda>l. kind_of l = NoTokens) SmartCL_h) = 5 \<and>
   (\<exists>evs s'. preprocess_SmartCL_h sample_platform windows_build = Inr (evs, s') \<and>
      emitted_of evs = [])"
proof -
  note all = directives_only [of sample_platform windows_build]
  from all have len: "length SmartCL_h_text = 15"
    by (rule conjunct1)
  from all have kinds: "map kind_of SmartCL_h =
     [DirectiveLine, NoTokens, DirectiveLine, NoTokens,
      DirectiveLine, DirectiveLine, DirectiveLine, NoTokens,
      DirectiveLine, DirectiveLine, DirectiveLine, NoTokens,
      DirectiveLine, NoTokens, DirectiveLine]"
    by (rule conjunct1 [OF conjunct2])
  from all have run:
    "\<exists>evs s'. preprocess_SmartCL_h sample_platform windows_build = Inr (evs, s') \<and>
      emitted_of evs = []"
    by (rule conjunct2 [OF conjunct2 [OF conjunct2]])
  have "length (filter (\<lambda>l. kind_of l = DirectiveLine) SmartCL_h) =
        length (filter (\<lambda>k. k = DirectiveLine) (map kind_of SmartCL_h))"
    by (simp add: filter_map comp_def)
  also have "\<dots> = 10"
    by (simp add: kinds)
  finally have ten: "length (filter (\<lambda>l. kind_of l = DirectiveLine) SmartCL_h) = 10" .
  have "length (filter (\<lambda>l. kind_of l = NoTokens) SmartCL_h) =
        length (filter (\<lambda>k. k = NoTokens) (map kind_of SmartCL_h))"
    by (simp add: filter_map comp_def)
  also have "\<dots> = 5"
    by (simp add: kinds)
  finally have five: "length (filter (\<lambda>l. kind_of l = NoTokens) SmartCL_h) = 5" .
  from len ten five run show ?thesis
    by blast
qed

text \<open>
  C9. In every build that has \<^verbatim>\<open>_WINDOWS\<close> defined when the header is read, the header
  defines four macros, the first of them \<^verbatim>\<open>WIN32_LEAN_AND_MEAN\<close> with an empty
  replacement list, and it does so right before it includes \<^verbatim>\<open><windows.h>\<close> for the
  first and only time: \<^verbatim>\<open><windows.h>\<close> is read with the macro defined, and the table
  the header leaves behind is the one the two platform headers made of that, with
  \<^verbatim>\<open>kernel\<close>, \<^verbatim>\<open>global\<close> and \<^verbatim>\<open>local\<close> added.
\<close>

theorem lean_and_mean_before_windows_h:
  assumes "is_defined ''_WINDOWS'' (macros s)"
  shows "\<exists>evs s' before after.
           preprocess_SmartCL_h sys s = Inr (evs, s') \<and>
           evs = before @
                 Defined ''WIN32_LEAN_AND_MEAN'' [] # Included (Angle ''windows.h'') # after \<and>
           Included (Angle ''windows.h'') \<notin> set before \<and>
           Included (Angle ''windows.h'') \<notin> set after \<and>
           map fst (definitions_of evs) =
             [''WIN32_LEAN_AND_MEAN'', ''kernel'', ''global'', ''local''] \<and>
           macros s' =
             define_macro ''local'' []
               (define_macro ''global'' []
                 (define_macro ''kernel''
                    [Ident ''extern'', StrLit ''C'', Ident ''__declspec'', Punct CHR ''('',
                     Ident ''dllexport'', Punct CHR '')'']
                    (sys (Angle ''stdio.h'')
                      (sys (Angle ''windows.h'')
                        (define_macro ''WIN32_LEAN_AND_MEAN'' [] (macros s))))))"
proof -
  let ?before = "[MarkedOnce SmartCL_h_name]"
  let ?after = "[Included (Angle ''stdio.h''),
          Defined ''kernel''
            [Ident ''extern'', StrLit ''C'', Ident ''__declspec'', Punct CHR ''('',
             Ident ''dllexport'', Punct CHR '')''],
          Defined ''global'' [],
          Defined ''local'' [],
          PragmaIssued
            [Ident ''warning'', Punct CHR ''('', Ident ''disable'', Punct CHR '':'',
             Number ''4326'', Punct CHR '')'']]"
  show ?thesis
    by (rule exI, rule exI, rule exI [of _ ?before], rule exI [of _ ?after],
        intro conjI, rule on_windows [OF assms])
      simp_all
qed

theorem lean_and_mean_before_windows_h_witness:
  "is_defined ''_WINDOWS'' (macros windows_build) \<and>
   (\<exists>evs s' before after.
      preprocess_SmartCL_h sample_platform windows_build = Inr (evs, s') \<and>
      evs = before @
            Defined ''WIN32_LEAN_AND_MEAN'' [] # Included (Angle ''windows.h'') # after \<and>
      map_of (macros s') ''WIN32_LEAN_AND_MEAN'' = Some [])"
proof -
  from lean_and_mean_before_windows_h [OF windows_build_defined, of sample_platform]
  obtain evs s' before after where
    run: "preprocess_SmartCL_h sample_platform windows_build = Inr (evs, s')" and
    order: "evs = before @
        Defined ''WIN32_LEAN_AND_MEAN'' [] # Included (Angle ''windows.h'') # after" and
    table: "macros s' =
             define_macro ''local'' []
               (define_macro ''global'' []
                 (define_macro ''kernel''
                    [Ident ''extern'', StrLit ''C'', Ident ''__declspec'', Punct CHR ''('',
                     Ident ''dllexport'', Punct CHR '')'']
                    (sample_platform (Angle ''stdio.h'')
                      (sample_platform (Angle ''windows.h'')
                        (define_macro ''WIN32_LEAN_AND_MEAN'' [] (macros windows_build))))))"
    by blast
  have "map_of (macros s') ''WIN32_LEAN_AND_MEAN'' = Some []"
    unfolding table by (simp add: sample_platform_def)
  with run order windows_build_defined show ?thesis
    by blast
qed

text \<open>
  C10. What preprocessing the header does is settled by whether \<^verbatim>\<open>_WINDOWS\<close> is
  defined: two runs that agree on that, whatever else their macro tables, their marked
  files and their platforms hold, both succeed and do the same things in the same
  order, hence make the same macro definitions, include the same files and issue the
  same pragmas.
\<close>

theorem effects_depend_on_windows_only:
  assumes "is_defined ''_WINDOWS'' (macros s1) = is_defined ''_WINDOWS'' (macros s2)"
  shows "\<exists>evs t1 t2.
           preprocess_SmartCL_h sys1 s1 = Inr (evs, t1) \<and>
           preprocess_SmartCL_h sys2 s2 = Inr (evs, t2)"
proof (cases "is_defined ''_WINDOWS'' (macros s1)")
  case True
  with assms have "is_defined ''_WINDOWS'' (macros s2)" by simp
  from on_windows [OF True, of sys1] on_windows [OF this, of sys2] show ?thesis
    by simp
next
  case False
  with assms have "\<not> is_defined ''_WINDOWS'' (macros s2)" by simp
  from off_windows [OF False, of sys1] off_windows [OF this, of sys2] show ?thesis
    by simp
qed

theorem effects_depend_on_windows_only_witness:
  "is_defined ''_WINDOWS'' (macros windows_build) =
     is_defined ''_WINDOWS'' (macros busy_windows_build) \<and>
   (\<exists>evs t1 t2.
      preprocess_SmartCL_h sample_platform windows_build = Inr (evs, t1) \<and>
      preprocess_SmartCL_h bare_platform busy_windows_build = Inr (evs, t2))"
proof -
  have agree: "is_defined ''_WINDOWS'' (macros windows_build) =
      is_defined ''_WINDOWS'' (macros busy_windows_build)"
    by (simp add: windows_build_defined busy_windows_build_defined)
  from effects_depend_on_windows_only [OF agree, of sample_platform bare_platform] agree
  show ?thesis
    by blast
qed

end
